theory Spec2Isabelle
  imports Main
begin

section \<open>Python values, logging and the world\<close>

text \<open>
  An exception is a value: \<open>Exception m\<close> is an instance of \<^verbatim>\<open>Exception\<close> whose \<^verbatim>\<open>str\<close> is \<open>m\<close>,
  \<open>IntegrityError m\<close> an instance of \<^verbatim>\<open>sqlite3.IntegrityError\<close> (a subclass of
  \<^verbatim>\<open>Exception\<close>), and \<open>BaseException m\<close> an instance of \<^verbatim>\<open>BaseException\<close> that is not an
  \<^verbatim>\<open>Exception\<close>: \<^verbatim>\<open>KeyboardInterrupt\<close>, \<^verbatim>\<open>SystemExit\<close>, \<^verbatim>\<open>asyncio.CancelledError\<close>. A function
  of the source returns a pair: its outcome (\<open>Inl e\<close> when the exception \<open>e\<close> escapes it,
  \<open>Inr v\<close> when it returns \<open>v\<close>) and the world after the call.
\<close>

datatype exn = Exception string | IntegrityError string | BaseException string

text \<open>What a handler \<^verbatim>\<open>except Exception as e\<close> catches, and \<^verbatim>\<open>str(e)\<close>.\<close>

definition caught :: "exn \<Rightarrow> bool" where
  "caught e = (case e of BaseException _ \<Rightarrow> False | _ \<Rightarrow> True)"

definition exn_str :: "exn \<Rightarrow> string" where
  "exn_str e = (case e of Exception m \<Rightarrow> m | IntegrityError m \<Rightarrow> m | BaseException m \<Rightarrow> m)"

datatype level = INFO | WARNING | ERROR

text \<open>One row of the table \<^verbatim>\<open>quantum_news_rss\<close> (enhanced_rss_parser.py, lines 24-36).\<close>

record row =
  row_id :: nat
  row_title :: string
  row_author :: string
  row_publish_date :: string
  article_link :: string
  row_content :: string
  ai_summary :: "string option"
  created_at :: string
  updated_at :: string

text \<open>
  The world a run acts on: the table (\<open>rows\<close>) with its AUTOINCREMENT counter (\<open>seq\<close>, the
  table's entry in \<^verbatim>\<open>sqlite_sequence\<close>), the number of database operations started so far
  (\<open>db_ops\<close>, one for each \<^verbatim>\<open>sqlite3.connect\<close>), the number of calls of the Summarizer Adapter
  so far (\<open>adapter_calls\<close>), the lines given to \<^verbatim>\<open>logging\<close>, the URLs handed to the page
  extractor and the prompts handed to the summarization runner.
\<close>

record world =
  rows :: "row list"
  seq :: nat
  db_ops :: nat
  adapter_calls :: nat
  log :: "(level \<times> string) list"
  downloads :: "string list"
  prompts :: "string list"

text \<open>A feed entry is a dictionary; an absent key is \<open>None\<close>.\<close>

record entry =
  e_link :: "string option"
  e_title :: "string option"
  e_author :: "string option"
  e_published :: "string option"

text \<open>The result of \<^verbatim>\<open>feedparser.parse\<close>.\<close>

record feed =
  bozo :: bool
  entries :: "entry list"

text \<open>
  A downloaded and parsed \<^verbatim>\<open>newspaper.Article\<close>. \<open>a_publish_date\<close> is the rendering
  \<^verbatim>\<open>strftime('%Y-%m-%d')\<close> of the article's date, when it has one.
\<close>

record page =
  a_title :: string
  a_text :: string
  a_authors :: "string list"
  a_publish_date :: "string option"

text \<open>An event of the runner's response stream, with the attributes the adapter reads.\<close>

datatype part = Part (part_text: "string option")

datatype content = Content (parts: "part list option")

datatype actions = Actions (escalate: "bool option")

record event =
  is_final_response :: bool
  ev_content :: "content option"
  ev_actions :: "actions option"
  error_message :: "string option"

text \<open>The asynchronous generator yields an event or raises.\<close>

datatype stream_item = Yield event | Raise exn

text \<open>
  The collaborators of a run. None of them is assumed to behave the same way twice, or to
  work at all: \<open>rss_feed\<close> is what \<^verbatim>\<open>feedparser.parse(self.rss_url)\<close> returns or raises;
  \<open>newspaper n url\<close> is the download and parse of a page when \<open>n\<close> pages were requested
  before; \<open>today\<close> is \<^verbatim>\<open>str(date.today())\<close>; \<open>create_session k\<close> is the exception raised by
  \<^verbatim>\<open>create_session\<close> in the \<open>k\<close>-th call of the adapter, if any, and \<open>run_async k p\<close> the stream
  that the runner produces in that call for the prompt \<open>p\<close>; \<open>db_connect k\<close> is the exception
  raised by \<^verbatim>\<open>sqlite3.connect\<close> or \<^verbatim>\<open>cursor\<close> in the \<open>k\<close>-th database operation, if any, and
  \<open>db_execute k\<close> the exception that makes the statement of that operation fail for a reason
  of its own (a locked or corrupt file, a full disk, an interrupt), if any; \<open>clock k\<close> is the
  reading of \<^verbatim>\<open>CURRENT_TIMESTAMP\<close> in that operation.
\<close>

record env =
  rss_feed :: "exn + feed"
  newspaper :: "nat \<Rightarrow> string \<Rightarrow> exn + page"
  today :: string
  create_session :: "nat \<Rightarrow> exn option"
  run_async :: "nat \<Rightarrow> string \<Rightarrow> stream_item list"
  db_connect :: "nat \<Rightarrow> exn option"
  db_execute :: "nat \<Rightarrow> exn option"
  clock :: "nat \<Rightarrow> string"

definition logging :: "level \<Rightarrow> string \<Rightarrow> world \<Rightarrow> world" where
  "logging lvl msg w = w\<lparr>log := log w @ [(lvl, msg)]\<rparr>"

text \<open>\<^verbatim>\<open>str(n)\<close> of a non-negative integer, as the f-strings of the log lines format an id.\<close>

definition digit :: "nat \<Rightarrow> char" where
  "digit d = char_of (48 + d)"

fun str :: "nat \<Rightarrow> string" where
  "str n = (if n < 10 then [digit n] else str (n div 10) @ [digit (n mod 10)])"

declare str.simps [simp del]


text \<open>\<^verbatim>\<open>d.get(key, default)\<close> on an optional key.\<close>

definition get :: "'a option \<Rightarrow> 'a \<Rightarrow> 'a" where
  "get v dflt = (case v of None \<Rightarrow> dflt | Some x \<Rightarrow> x)"

section \<open>QuantumRSSParser (enhanced\_rss\_parser.py)\<close>


text \<open>The dictionary returned by \<^verbatim>\<open>fetch_latest_article\<close>.\<close>

record article =
  art_id :: nat
  art_title :: string
  art_author :: string
  art_publish_date :: string
  art_link :: string
  art_content :: string








text \<open>
  Lines 159-177. The connection is opened before the \<^verbatim>\<open>try\<close>. A statement that fails with
  an \<^verbatim>\<open>Exception\<close> writes nothing, logs an error and gives \<^verbatim>\<open>False\<close>. Otherwise the UPDATE
  writes the summary and the current timestamp into every row with the given id, and the
  function returns \<^verbatim>\<open>True\<close>, also when no row has that id.
\<close>

definition update_article_summary ::
  "env \<Rightarrow> nat \<Rightarrow> string \<Rightarrow> world \<Rightarrow> (exn + bool) \<times> world" where
  "update_article_summary env article_id summary w =
     (let w1 = w\<lparr>db_ops := Suc (db_ops w)\<rparr> in
      case db_connect env (db_ops w) of
        Some e \<Rightarrow> (Inl e, w1)
      | None \<Rightarrow>
          (case db_execute env (db_ops w) of
             Some e \<Rightarrow>
               if caught e
               then (Inr False, logging ERROR (''Error updating summary: '' @ exn_str e) w1)
               else (Inl e, w1)
           | None \<Rightarrow>
               let now = clock env (db_ops w);
                   w2 = w1\<lparr>rows := map (\<lambda>r. if row_id r = article_id
                                            then r\<lparr>ai_summary := Some summary, updated_at := now\<rparr>
                                            else r) (rows w)\<rparr>
               in (Inr True,
                   logging INFO (''Summary updated for article ID: '' @ str article_id) w2)))"



section \<open>QuantumNewsAgent (enhanced\_agent.py)\<close>

text \<open>Python's truth value of a string or \<^verbatim>\<open>None\<close>, as in \<^verbatim>\<open>if summary:\<close>.\<close>

definition truthy :: "string option \<Rightarrow> bool" where
  "truthy v = (case v of None \<Rightarrow> False | Some s \<Rightarrow> s \<noteq> [])"

text \<open>Lines 35-39: the content is cut to \<^verbatim>\<open>max_content_length\<close> characters.\<close>

definition max_content_length :: nat where
  "max_content_length = 8000"

definition truncated :: "string \<Rightarrow> string" where
  "truncated content =
     (if length content > max_content_length
      then take max_content_length content @ ''...''
      else content)"

text \<open>Lines 41-48: the f-string, with its line breaks and indentation.\<close>

definition nl :: string where
  "nl = [CHR 0x0A]"

definition indent :: string where
  "indent = replicate 12 CHR '' ''"

definition prompt :: "string \<Rightarrow> string" where
  "prompt content =
     nl @ indent @ ''Please summarize the following quantum computing article in exactly 250 words.''
     @ nl @ indent @ ''Make the summary engaging and accessible to general readers while preserving the key technical concepts.''
     @ nl @ indent @ ''Use plain English and avoid jargon where possible.''
     @ nl
     @ nl @ indent @ ''Article content:''
     @ nl @ indent @ content
     @ nl @ indent"

text \<open>
  The tests of lines 72 and 76: \<^verbatim>\<open>event.content and event.content.parts\<close> holds for a
  content with a non-empty list of parts, \<^verbatim>\<open>event.actions and event.actions.escalate\<close>
  for actions whose flag is \<^verbatim>\<open>True\<close>.
\<close>

definition content_parts :: "event \<Rightarrow> part list" where
  "content_parts ev =
     (case ev_content ev of
        None \<Rightarrow> []
      | Some c \<Rightarrow> (case parts c of None \<Rightarrow> [] | Some ps \<Rightarrow> ps))"

definition escalates :: "event \<Rightarrow> bool" where
  "escalates ev =
     (case ev_actions ev of
        None \<Rightarrow> False
      | Some a \<Rightarrow> (case escalate a of None \<Rightarrow> False | Some b \<Rightarrow> b))"

text \<open>
  Lines 66-81, the \<^verbatim>\<open>async for\<close> loop. A final event with parts ends the loop with the text
  of its first part; a final event without parts that escalates ends it with
  \<^verbatim>\<open>None\<close>; every other event is skipped; the end of the stream gives \<^verbatim>\<open>None\<close>.
\<close>

fun run_events :: "stream_item list \<Rightarrow> world \<Rightarrow> (exn + string option) \<times> world" where
  "run_events [] w = (Inr None, w)"
| "run_events (Raise e # _) w = (Inl e, w)"
| "run_events (Yield ev # rest) w =
     (if is_final_response ev then
        (case content_parts ev of
           p # _ \<Rightarrow> (Inr (part_text p), logging INFO ''Summary generated successfully'' w)
         | [] \<Rightarrow>
             if escalates ev
             then (Inr None,
                   logging ERROR (''Agent escalated: '' @
                     (if truthy (error_message ev) then get (error_message ev) []
                      else ''No specific message.'')) w)
             else run_events rest w)
      else run_events rest w)"

definition summarize_article_content_body ::
  "env \<Rightarrow> string \<Rightarrow> world \<Rightarrow> (exn + string option) \<times> world" where
  "summarize_article_content_body env content w =
     (let k = adapter_calls w;
          w0 = w\<lparr>adapter_calls := Suc k\<rparr>
      in case create_session env k of
        Some e \<Rightarrow> (Inl e, w0)
      | None \<Rightarrow>
          let w1 = (if length content > max_content_length
                    then logging INFO ''Content truncated due to length'' w0 else w0);
              p = prompt (truncated content);
              w2 = logging INFO ''Generating AI summary...'' w1;
              w3 = w2\<lparr>prompts := prompts w2 @ [p]\<rparr>
          in run_events (run_async env k p) w3)"

text \<open>
  Lines 27-85: the handler of line 83 turns what is an \<^verbatim>\<open>Exception\<close> into \<^verbatim>\<open>None\<close>; anything
  else escapes.
\<close>

definition summarize_article_content ::
  "env \<Rightarrow> string \<Rightarrow> world \<Rightarrow> (exn + string option) \<times> world" where
  "summarize_article_content env content w =
     (case summarize_article_content_body env content w of
        (Inl e, w1) \<Rightarrow>
          if caught e
          then (Inr None, logging ERROR (''Error generating summary: '' @ exn_str e) w1)
          else (Inl e, w1)
      | (Inr r, w1) \<Rightarrow> (Inr r, w1))"

text \<open>The dictionary returned by \<^verbatim>\<open>process_new_articles\<close>.\<close>

record report =
  status :: string
  message :: "string option"
  rep_article :: "article option"
  rep_summary :: "string option"







text \<open>
  The answer of the adapter in its \<open>k\<close>-th call, for a text: what
  \<^verbatim>\<open>summarize_article_content\<close> returns or raises in a world whose call counter is \<open>k\<close>. The
  world only receives the log lines and the prompt of the call; the answer depends on it
  through the counter alone (lemma \<open>summarize_result\<close>).
\<close>

definition probe :: "nat \<Rightarrow> world" where
  "probe k = \<lparr>rows = [], seq = 0, db_ops = 0, adapter_calls = k, log = [],
              downloads = [], prompts = []\<rparr>"

definition adapter_result :: "env \<Rightarrow> nat \<Rightarrow> string \<Rightarrow> exn + string option" where
  "adapter_result env k content = fst (summarize_article_content env content (probe k))"





section \<open>Concrete scenarios\<close>

text \<open>
  Events, collaborators and stores on which the theorems below are instantiated: a final
  event carrying text, a final event that escalates, an intermediate event; collaborators
  that all work, with a feed of one entry whose page can be extracted and a summarizer that
  escalates on the text \<open>bad\<close>; an empty store and a store holding three pending articles.
\<close>

definition text_event :: "string \<Rightarrow> event" where
  "text_event s = \<lparr>is_final_response = True, ev_content = Some (Content (Some [Part (Some s)])),
                   ev_actions = Some (Actions None), error_message = None\<rparr>"

definition escalation_event :: event where
  "escalation_event = \<lparr>is_final_response = True, ev_content = None,
                        ev_actions = Some (Actions (Some True)), error_message = Some ''quota''\<rparr>"

definition partial_event :: event where
  "partial_event = \<lparr>is_final_response = False, ev_content = Some (Content (Some [Part (Some ''dra'')])),
                     ev_actions = Some (Actions None), error_message = None\<rparr>"

definition example_page :: page where
  "example_page = \<lparr>a_title = ''Page'', a_text = ''Body'', a_authors = [], a_publish_date = None\<rparr>"

definition example_env :: env where
  "example_env =
     \<lparr>rss_feed = Inr \<lparr>bozo = False,
                      entries = [\<lparr>e_link = Some ''L1'', e_title = Some ''T1'',
                                  e_author = None, e_published = None\<rparr>]\<rparr>,
      newspaper = (\<lambda>n url. if url = ''L1'' then Inr example_page else Inl (Exception ''404'')),
      today = ''2025-01-01'',
      create_session = (\<lambda>k. None),
      run_async = (\<lambda>k p. if p = prompt ''bad'' then [Yield partial_event, Yield escalation_event]
                          else [Yield partial_event, Yield (text_event ''A summary'')]),
      db_connect = (\<lambda>k. None),
      db_execute = (\<lambda>k. None),
      clock = (\<lambda>k. ''t'' @ str k)\<rparr>"


definition pending_row :: "nat \<Rightarrow> string \<Rightarrow> string \<Rightarrow> row" where
  "pending_row i link content =
     \<lparr>row_id = i, row_title = ''T'', row_author = ''A'', row_publish_date = ''2025-01-01'',
      article_link = link, row_content = content, ai_summary = None,
      created_at = ''t0'', updated_at = ''t0''\<rparr>"

definition backlog_store :: world where
  "backlog_store =
     \<lparr>rows = [pending_row 1 ''L1'' ''good'', pending_row 2 ''L2'' ''bad'',
              (pending_row 3 ''L3'' ''fine'')\<lparr>ai_summary := Some []\<rparr>],
      seq = 3, db_ops = 0, adapter_calls = 0, log = [], downloads = [], prompts = []\<rparr>"


definition update_fails_env :: env where
  "update_fails_env =
     example_env\<lparr>db_execute := (\<lambda>k. if k = 1 then Some (Exception ''database is locked'')
                                      else None)\<rparr>"







definition always_escalates_env :: env where
  "always_escalates_env =
     example_env\<lparr>run_async := (\<lambda>k p. [Yield partial_event, Yield escalation_event])\<rparr>"



definition extraction_fails_env :: env where
  "extraction_fails_env =
     example_env\<lparr>rss_feed := Inr \<lparr>bozo = False,
                                     entries = [\<lparr>e_link = Some ''L2'', e_title = Some ''T2'',
                                                 e_author = None, e_published = None\<rparr>]\<rparr>\<rparr>"

definition flaky_download_env :: env where
  "flaky_download_env =
     example_env\<lparr>newspaper := (\<lambda>n url. if n = 0 then Inl (Exception ''timed out'')
                                        else Inr example_page)\<rparr>"

definition malformed_feed_env :: env where
  "malformed_feed_env = example_env\<lparr>rss_feed := Inr \<lparr>bozo = True, entries = []\<rparr>\<rparr>"

definition empty_page_env :: env where
  "empty_page_env =
     example_env\<lparr>rss_feed := Inr \<lparr>bozo = False,
                                     entries = [\<lparr>e_link = Some ''L1'', e_title = None,
                                                 e_author = None, e_published = None\<rparr>]\<rparr>,
                  newspaper := (\<lambda>n url. Inr \<lparr>a_title = [], a_text = [], a_authors = [],
                                               a_publish_date = None\<rparr>)\<rparr>"

lemma logging_fields [simp]:
  "rows (logging l m w) = rows w"
  "seq (logging l m w) = seq w"
  "db_ops (logging l m w) = db_ops w"
  "adapter_calls (logging l m w) = adapter_calls w"
  "downloads (logging l m w) = downloads w"
  "prompts (logging l m w) = prompts w"
  "log (logging l m w) = log w @ [(l, m)]"
  by (simp_all add: logging_def)

lemma run_events_result:
  "fst (run_events xs w) = fst (run_events xs w')"
proof (induction xs w rule: run_events.induct)
  case (3 ev rest w)
  then show ?case by (simp split: list.splits)
qed simp_all

lemma run_events_frame:
  "rows (snd (run_events xs w)) = rows w \<and> seq (snd (run_events xs w)) = seq w
   \<and> db_ops (snd (run_events xs w)) = db_ops w
   \<and> adapter_calls (snd (run_events xs w)) = adapter_calls w
   \<and> downloads (snd (run_events xs w)) = downloads w
   \<and> prompts (snd (run_events xs w)) = prompts w"
proof (induction xs w rule: run_events.induct)
  case (3 ev rest w)
  then show ?case by (simp split: list.splits)
qed simp_all

lemma summarize_body_result:
  assumes "adapter_calls w = adapter_calls w'"
  shows "fst (summarize_article_content_body env c w)
           = fst (summarize_article_content_body env c w')"
proof (cases "create_session env (adapter_calls w)")
  case None
  then show ?thesis
    unfolding summarize_article_content_body_def Let_def assms[symmetric]
    by (simp only: option.case) (rule run_events_result)
next
  case (Some e)
  then show ?thesis
    using assms by (simp add: summarize_article_content_body_def Let_def)
qed

lemma summarize_body_frame:
  "rows (snd (summarize_article_content_body env c w)) = rows w
   \<and> seq (snd (summarize_article_content_body env c w)) = seq w
   \<and> db_ops (snd (summarize_article_content_body env c w)) = db_ops w
   \<and> adapter_calls (snd (summarize_article_content_body env c w)) = Suc (adapter_calls w)
   \<and> downloads (snd (summarize_article_content_body env c w)) = downloads w
   \<and> prompts (snd (summarize_article_content_body env c w)) =
       (if create_session env (adapter_calls w) = None
        then prompts w @ [prompt (truncated c)] else prompts w)"
  by (simp add: summarize_article_content_body_def Let_def run_events_frame split: option.splits)

lemma summarize_unfold:
  "summarize_article_content env c w =
     (case fst (summarize_article_content_body env c w) of
        Inl e \<Rightarrow> if caught e
                 then (Inr None, logging ERROR (''Error generating summary: '' @ exn_str e)
                                   (snd (summarize_article_content_body env c w)))
                 else (Inl e, snd (summarize_article_content_body env c w))
      | Inr r \<Rightarrow> (Inr r, snd (summarize_article_content_body env c w)))"
  by (cases "summarize_article_content_body env c w")
     (simp add: summarize_article_content_def split: sum.splits)

lemma summarize_result:
  assumes "adapter_calls w = adapter_calls w'"
  shows "fst (summarize_article_content env c w) = fst (summarize_article_content env c w')"
  using summarize_body_result[OF assms, of env c]
  by (simp add: summarize_unfold split: sum.splits)

lemma summarize_adapter_result:
  "fst (summarize_article_content env c w) = adapter_result env (adapter_calls w) c"
  unfolding adapter_result_def
  by (rule summarize_result) (simp add: probe_def)

lemma summarize_frame:
  "rows (snd (summarize_article_content env c w)) = rows w
   \<and> seq (snd (summarize_article_content env c w)) = seq w
   \<and> db_ops (snd (summarize_article_content env c w)) = db_ops w
   \<and> adapter_calls (snd (summarize_article_content env c w)) = Suc (adapter_calls w)
   \<and> downloads (snd (summarize_article_content env c w)) = downloads w
   \<and> prompts (snd (summarize_article_content env c w)) =
       (if create_session env (adapter_calls w) = None
        then prompts w @ [prompt (truncated c)] else prompts w)"
  using summarize_body_frame[of env c w]
  by (simp add: summarize_unfold split: sum.splits)

lemma summarize_cases:
  obtains res w' where "summarize_article_content env c w = (res, w')"
    and "res = adapter_result env (adapter_calls w) c"
    and "rows w' = rows w" and "seq w' = seq w" and "db_ops w' = db_ops w"
    and "adapter_calls w' = Suc (adapter_calls w)" and "downloads w' = downloads w"
proof -
  have "summarize_article_content env c w
          = (fst (summarize_article_content env c w), snd (summarize_article_content env c w))"
    by simp
  then show ?thesis
    using that summarize_frame[of env c w] summarize_adapter_result[of env c w] by blast
qed





lemma update_not_true:
  "fst (update_article_summary env aid s w) \<noteq> Inr True \<Longrightarrow>
   rows (snd (update_article_summary env aid s w)) = rows w"
  by (simp add: update_article_summary_def Let_def split: option.splits if_splits)

section \<open>The frame of a summary write\<close>

text \<open>
  Claim C9. Writing a summary for the article with a given id changes nothing but the summary
  and the \<^verbatim>\<open>updated_at\<close> timestamp of the rows with that id. Whatever the database does (the
  connection may fail, the UPDATE may fail), the table keeps its length, its order and its id
  counter; the id, title, author, publish date, link, content and \<^verbatim>\<open>created_at\<close> of every row
  are unchanged, and every row with another id is unchanged as a whole. The call returns
  \<^verbatim>\<open>True\<close> exactly when both the connection and the statement work; then the rows with the
  given id hold the new summary and the timestamp read from the clock. When it does not
  return \<^verbatim>\<open>True\<close> (it returns \<^verbatim>\<open>False\<close> or raises), no row is changed at all.
\<close>

theorem update_article_summary_frame:
  "let res = fst (update_article_summary env article_id summary w);
       w' = snd (update_article_summary env article_id summary w)
   in length (rows w') = length (rows w)
    \<and> seq w' = seq w
    \<and> (res = Inr True \<longleftrightarrow>
         db_connect env (db_ops w) = None \<and> db_execute env (db_ops w) = None)
    \<and> (\<forall>i < length (rows w).
         created_at (rows w' ! i) = created_at (rows w ! i)
       \<and> row_id (rows w' ! i) = row_id (rows w ! i)
       \<and> row_title (rows w' ! i) = row_title (rows w ! i)
       \<and> row_author (rows w' ! i) = row_author (rows w ! i)
       \<and> row_publish_date (rows w' ! i) = row_publish_date (rows w ! i)
       \<and> article_link (rows w' ! i) = article_link (rows w ! i)
       \<and> row_content (rows w' ! i) = row_content (rows w ! i)
       \<and> (row_id (rows w ! i) \<noteq> article_id \<longrightarrow> rows w' ! i = rows w ! i)
       \<and> (res \<noteq> Inr True \<longrightarrow> rows w' ! i = rows w ! i)
       \<and> (res = Inr True \<and> row_id (rows w ! i) = article_id \<longrightarrow>
            ai_summary (rows w' ! i) = Some summary
          \<and> updated_at (rows w' ! i) = clock env (db_ops w)))"
  by (simp add: update_article_summary_def Let_def split: option.splits)

theorem update_article_summary_frame_witness:
  "(1::nat) < length (rows backlog_store) \<and> row_id (rows backlog_store ! 1) = 2
   \<and> row_id (rows backlog_store ! 0) \<noteq> 2
   \<and> fst (update_article_summary example_env 2 ''S'' backlog_store) = Inr True
   \<and> (let w' = snd (update_article_summary example_env 2 ''S'' backlog_store) in
        ai_summary (rows w' ! 1) = Some ''S''
      \<and> updated_at (rows w' ! 1) = clock example_env 0
      \<and> created_at (rows w' ! 1) = ''t0''
      \<and> row_content (rows w' ! 1) = ''bad''
      \<and> rows w' ! 0 = rows backlog_store ! 0
      \<and> rows w' ! 2 = rows backlog_store ! 2)
   \<and> fst (update_article_summary update_fails_env 2 ''S'' (backlog_store\<lparr>db_ops := 1\<rparr>))
       = Inr False
   \<and> rows (snd (update_article_summary update_fails_env 2 ''S'' (backlog_store\<lparr>db_ops := 1\<rparr>)))
       = rows backlog_store"
  using update_article_summary_frame[of example_env 2 "''S''" backlog_store]
    update_article_summary_frame[of update_fails_env 2 "''S''" "backlog_store\<lparr>db_ops := 1\<rparr>"]
  by (simp add: Let_def backlog_store_def pending_row_def update_article_summary_def
      example_env_def update_fails_env_def caught_def)




section \<open>The Summarizer Adapter\<close>






section \<open>Link uniqueness\<close>










section \<open>The backlog pass\<close>













end
